theory Spec2Isabelle
  imports Main
begin

section \<open>The platform's values\<close>

text \<open>
  \<^verbatim>\<open>wrappedFetch\<close> (\<^verbatim>\<open>_private/fetchWrapper.ts\<close>) works on objects of the web platform:
  requests, responses, events and promises. A request is an object with an identity:
  \<^verbatim>\<open>request.clone()\<close> constructs a new object with the same fields. The model keeps the
  identity as the field \<open>req_id\<close>, next to the fields the orchestrator reads (\<^verbatim>\<open>url\<close>,
  \<^verbatim>\<open>mode\<close>) and the HTTP method. Request objects are immutable in these fields, so an object
  is the value of its fields together with its identity. The state of a body stream is
  not modelled: \<^verbatim>\<open>clone()\<close> on a request object succeeds, as it does on the platform for a
  request whose body has not been read; it fails on \<^verbatim>\<open>undefined\<close> and \<^verbatim>\<open>null\<close>. That two
  objects can be read independently is, in the model, that their identities differ.
\<close>

record Request =
  req_id :: nat
  url :: string
  "method" :: string
  mode :: string

record Response =
  status :: nat
  body :: string

text \<open>
  What a \<^verbatim>\<open>catch\<close> clause of the orchestrator can receive: a value thrown by a plugin or by
  the host (\<open>Thrown\<close>, with the identity of the thrown object), or the \<^verbatim>\<open>TypeError\<close> the
  language raises when a property of \<^verbatim>\<open>undefined\<close> or \<^verbatim>\<open>null\<close> is read (with the property's
  name).
\<close>

datatype nullish = Undefined | Null

datatype js_error = Thrown nat | TypeError nullish string

text \<open>An awaited call either returns a value or throws (the promise is rejected).\<close>

datatype 'a outcome = Returns 'a | Throws nat

datatype 'a promise = Resolved 'a | Rejected nat

text \<open>
  \<^verbatim>\<open>event?: FetchEvent | Event\<close>. Of a \<^verbatim>\<open>FetchEvent\<close> the orchestrator reads
  \<^verbatim>\<open>preloadResponse\<close>: absent, or a promise of a response or of \<^verbatim>\<open>undefined\<close>.
\<close>

datatype event = FetchEvent "Response option promise option" | Event

type_synonym fetchOptions = "(string \<times> string) list"

text \<open>
  The world outside the orchestrator, which plugins and the host may read and change:
  the identity the next constructed request object receives, and anything else
  (\<open>outside\<close>).
\<close>

record 's world =
  next_id :: nat
  outside :: 's

definition new_Request :: "string \<Rightarrow> 's world \<Rightarrow> 's world \<times> Request" where
  \<comment> \<open>\<^verbatim>\<open>new Request(url)\<close>: a GET request with the default mode.\<close>
  "new_Request s w =
     (w\<lparr>next_id := Suc (next_id w)\<rparr>,
      \<lparr>req_id = next_id w, url = s, method = ''GET'', mode = ''cors''\<rparr>)"

definition clone :: "Request \<Rightarrow> 's world \<Rightarrow> 's world \<times> Request" where
  \<comment> \<open>\<^verbatim>\<open>request.clone()\<close>: a new object with the fields of \<open>r\<close>.\<close>
  "clone r w = (w\<lparr>next_id := Suc (next_id w)\<rparr>, r\<lparr>req_id := next_id w\<rparr>)"

section \<open>Plugins\<close>

text \<open>
  Modelled from the spec: \<^verbatim>\<open>utils/pluginUtils\<close> (the type \<^verbatim>\<open>Plugin\<close> and \<^verbatim>\<open>pluginUtils.filter\<close>)
  and \<^verbatim>\<open>models/pluginEvents\<close> are not among the sources. An extension exposes a subset of
  the optional hooks \<^verbatim>\<open>requestWillFetch({request, event})\<close>,
  \<^verbatim>\<open>fetchDidSucceed({event, request, response})\<close> and
  \<^verbatim>\<open>fetchDidFail({error, event, originalRequest, request})\<close>; a hook that returns nothing
  returns \<open>None\<close>. \<open>plugin_id\<close> is the identity of the plugin object.
\<close>

record 's Plugin =
  plugin_id :: nat
  requestWillFetch ::
    "(Request \<Rightarrow> event option \<Rightarrow> 's world \<Rightarrow> 's world \<times> Request option outcome) option"
  fetchDidSucceed ::
    "(event option \<Rightarrow> Request \<Rightarrow> Response option \<Rightarrow> 's world
        \<Rightarrow> 's world \<times> Response option outcome) option"
  fetchDidFail ::
    "(js_error \<Rightarrow> event option \<Rightarrow> Request \<Rightarrow> Request \<Rightarrow> 's world
        \<Rightarrow> 's world \<times> unit outcome) option"

datatype pluginEvents = REQUEST_WILL_FETCH | FETCH_DID_SUCCEED | FETCH_DID_FAIL

fun has_callback :: "pluginEvents \<Rightarrow> 's Plugin \<Rightarrow> bool" where
  \<comment> \<open>\<^verbatim>\<open>callbackName in plugin\<close>\<close>
  "has_callback REQUEST_WILL_FETCH plugin = (requestWillFetch plugin \<noteq> None)"
| "has_callback FETCH_DID_SUCCEED plugin = (fetchDidSucceed plugin \<noteq> None)"
| "has_callback FETCH_DID_FAIL plugin = (fetchDidFail plugin \<noteq> None)"

definition pluginUtils_filter :: "'s Plugin list \<Rightarrow> pluginEvents \<Rightarrow> 's Plugin list" where
  \<comment> \<open>Modelled from the spec: \<^verbatim>\<open>selectImplementing\<close> filters the extensions, preserving
      order, to those that implement the named hook.\<close>
  "pluginUtils_filter ps callbackName = filter (has_callback callbackName) ps"

section \<open>WorkboxError\<close>

record WorkboxErrorDetails =
  cacheNameId :: "string option"
  className :: "string option"
  expectedClass :: "string option"
  expectedMethod :: "string option"
  expectedType :: "string option"
  funcName :: "string option"
  isReturnValueProblem :: "bool option"
  "method" :: "string option"
  moduleName :: "string option"
  paramName :: "string option"
  thrownError :: "js_error option"
  validValueDescription :: "string option"
  "value" :: "string option"
  url :: "string option"

record WorkboxError =
  message :: string
  name :: string
  details :: WorkboxErrorDetails

definition no_details :: WorkboxErrorDetails where
  \<comment> \<open>the object literal \<^verbatim>\<open>{}\<close>\<close>
  "no_details =
     \<lparr>cacheNameId = None, className = None, expectedClass = None, expectedMethod = None,
      expectedType = None, funcName = None, isReturnValueProblem = None, method = None,
      moduleName = None, paramName = None, thrownError = None,
      validValueDescription = None, value = None, url = None\<rparr>"

definition new_WorkboxError ::
  "(string \<Rightarrow> WorkboxErrorDetails \<Rightarrow> string) \<Rightarrow> string \<Rightarrow> WorkboxErrorDetails \<Rightarrow> WorkboxError" where
  \<comment> \<open>The constructor; \<^verbatim>\<open>messageGenerator\<close> is not among the sources and is a parameter.\<close>
  "new_WorkboxError messageGenerator errorCode ds =
     \<lparr>message = messageGenerator errorCode ds, name = errorCode, details = ds\<rparr>"

text \<open>What \<^verbatim>\<open>wrappedFetch\<close> throws: a caught value as it is, or a \<^verbatim>\<open>WorkboxError\<close>.\<close>

datatype failure = Raw js_error | Workbox WorkboxError

section \<open>The orchestrator\<close>

text \<open>
  The calls the orchestrator makes to plugins and to the host, in order, each with its
  arguments and its outcome. The first argument of a hook's call is the plugin's identity.
\<close>

datatype call =
    is_RequestWillFetch: RequestWillFetch (called_plugin: nat) (request_arg: Request)
      (event_arg: "event option") (returned_request: "Request option outcome")
  | is_Fetch: Fetch (request_arg: Request) (options_arg: "fetchOptions option")
      (fetched: "Response outcome")
  | is_FetchDidSucceed: FetchDidSucceed (called_plugin: nat) (event_arg: "event option")
      (request_arg: Request) (response_arg: "Response option")
      (returned_response: "Response option outcome")
  | is_FetchDidFail: FetchDidFail (called_plugin: nat) (error_arg: js_error)
      (event_arg: "event option") (originalRequest_arg: Request) (request_arg: Request)
      (completed: "unit outcome")

text \<open>The ambient primitives: the host's \<^verbatim>\<open>fetch\<close> and the message generator.\<close>

record 's env =
  fetch :: "Request \<Rightarrow> fetchOptions option \<Rightarrow> 's world \<Rightarrow> 's world \<times> Response outcome"
  messageGenerator :: "string \<Rightarrow> WorkboxErrorDetails \<Rightarrow> string"

datatype request_input = Req Request | Url string

record 's WrappedFetchOptions =
  request :: request_input
  event :: "event option"
  plugins :: "'s Plugin list option"
  fetchOptions :: "fetchOptions option"

text \<open>
  The blocks under \<^verbatim>\<open>process.env.NODE_ENV !== 'production'\<close> log and assert the classes of
  values; \<^verbatim>\<open>logger\<close> and \<^verbatim>\<open>assert\<close> are not among the sources, and on values of the declared
  types the assertions hold. They are left out.
\<close>

fun possiblePreloadResponse :: "event option \<Rightarrow> nat + Response option" where
  \<comment> \<open>Lines 54-63: \<open>Inl\<close> when the awaited promise is rejected, \<open>Inr (Some response)\<close>
      when a preloaded response is to be returned, \<open>Inr None\<close> to go on.\<close>
  "possiblePreloadResponse (Some (FetchEvent (Some (Resolved response)))) = Inr response"
| "possiblePreloadResponse (Some (FetchEvent (Some (Rejected e)))) = Inl e"
| "possiblePreloadResponse _ = Inr None"

definition originalRequest ::
  "'s Plugin list \<Rightarrow> Request \<Rightarrow> 's world \<Rightarrow> 's world \<times> Request option" where
  \<comment> \<open>Lines 81-82; \<open>None\<close> is \<^verbatim>\<open>null\<close>.\<close>
  "originalRequest failedFetchPlugins r w =
     (if length failedFetchPlugins > 0
      then (case clone r w of (w', c) \<Rightarrow> (w', Some c))
      else (w, None))"

fun requestWillFetch_loop ::
  "'s Plugin list \<Rightarrow> event option \<Rightarrow> Request option \<Rightarrow> 's world
     \<Rightarrow> 's world \<times> call list \<times> (js_error + Request option)" where
  \<comment> \<open>Lines 85-105, the body of the first \<^verbatim>\<open>try\<close>. The current request is \<open>None\<close> once a hook
      has returned nothing.\<close>
  "requestWillFetch_loop [] ev current w = (w, [], Inr current)"
| "requestWillFetch_loop (plugin # rest) ev current w =
     (case requestWillFetch plugin of
        None \<Rightarrow> requestWillFetch_loop rest ev current w
      | Some pluginMethod \<Rightarrow>
          (case current of
             None \<Rightarrow> (w, [], Inl (TypeError Undefined ''clone''))
           | Some r \<Rightarrow>
               (case clone r w of
                  (w1, requestClone) \<Rightarrow>
                    (case pluginMethod requestClone ev w1 of
                       (w2, Throws e) \<Rightarrow>
                         (w2,
                          [RequestWillFetch (plugin_id plugin) requestClone ev (Throws e)],
                          Inl (Thrown e))
                     | (w2, Returns v) \<Rightarrow>
                         (case requestWillFetch_loop rest ev v w2 of
                            (w3, calls, res) \<Rightarrow>
                              (w3,
                               RequestWillFetch (plugin_id plugin) requestClone ev (Returns v)
                                 # calls,
                               res))))))"

fun fetchDidSucceed_loop ::
  "'s Plugin list \<Rightarrow> event option \<Rightarrow> Request \<Rightarrow> Response option \<Rightarrow> 's world
     \<Rightarrow> 's world \<times> call list \<times> (js_error + Response option)" where
  \<comment> \<open>Lines 133-152.\<close>
  "fetchDidSucceed_loop [] ev pluginFilteredRequest fetchResponse w =
     (w, [], Inr fetchResponse)"
| "fetchDidSucceed_loop (plugin # rest) ev pluginFilteredRequest fetchResponse w =
     (case fetchDidSucceed plugin of
        None \<Rightarrow> fetchDidSucceed_loop rest ev pluginFilteredRequest fetchResponse w
      | Some pluginMethod \<Rightarrow>
          (case pluginMethod ev pluginFilteredRequest fetchResponse w of
             (w1, Throws e) \<Rightarrow>
               (w1,
                [FetchDidSucceed (plugin_id plugin) ev pluginFilteredRequest fetchResponse
                   (Throws e)],
                Inl (Thrown e))
           | (w1, Returns v) \<Rightarrow>
               (case fetchDidSucceed_loop rest ev pluginFilteredRequest v w1 of
                  (w2, calls, res) \<Rightarrow>
                    (w2,
                     FetchDidSucceed (plugin_id plugin) ev pluginFilteredRequest fetchResponse
                       (Returns v) # calls,
                     res))))"

definition try_fetch ::
  "'s env \<Rightarrow> 's Plugin list \<Rightarrow> event option \<Rightarrow> fetchOptions option \<Rightarrow> Request \<Rightarrow> Request
     \<Rightarrow> 's world \<Rightarrow> 's world \<times> call list \<times> (js_error + Response option)" where
  \<comment> \<open>Lines 117-154, the body of the second \<^verbatim>\<open>try\<close>. \<^verbatim>\<open>fetch(request)\<close> and
      \<^verbatim>\<open>fetch(request, undefined)\<close> are the call without options.\<close>
  "try_fetch env ps ev opts r pluginFilteredRequest w =
     (let passed = (if mode r = ''navigate'' then None else opts) in
      case fetch env r passed w of
        (w1, Throws e) \<Rightarrow> (w1, [Fetch r passed (Throws e)], Inl (Thrown e))
      | (w1, Returns fetchResponse) \<Rightarrow>
          (case fetchDidSucceed_loop ps ev pluginFilteredRequest (Some fetchResponse) w1 of
             (w2, calls, res) \<Rightarrow> (w2, Fetch r passed (Returns fetchResponse) # calls, res)))"

fun fetchDidFail_loop ::
  "'s Plugin list \<Rightarrow> js_error \<Rightarrow> event option \<Rightarrow> Request option \<Rightarrow> Request \<Rightarrow> 's world
     \<Rightarrow> 's world \<times> call list \<times> js_error option" where
  \<comment> \<open>Lines 161-168; \<open>Some e\<close> when the loop is left by the exception \<open>e\<close>. The callee
      \<^verbatim>\<open>plugin[FETCH_DID_FAIL].call\<close> is evaluated before the arguments.\<close>
  "fetchDidFail_loop [] error ev orig pluginFilteredRequest w = (w, [], None)"
| "fetchDidFail_loop (plugin # rest) error ev orig pluginFilteredRequest w =
     (case fetchDidFail plugin of
        None \<Rightarrow> (w, [], Some (TypeError Undefined ''call''))
      | Some pluginMethod \<Rightarrow>
          (case orig of
             None \<Rightarrow> (w, [], Some (TypeError Null ''clone''))
           | Some original \<Rightarrow>
               (case clone original w of
                  (w1, originalClone) \<Rightarrow>
                    (case clone pluginFilteredRequest w1 of
                       (w2, requestClone) \<Rightarrow>
                         (case pluginMethod error ev originalClone requestClone w2 of
                            (w3, Throws e) \<Rightarrow>
                              (w3,
                               [FetchDidFail (plugin_id plugin) error ev originalClone
                                  requestClone (Throws e)],
                               Some (Thrown e))
                          | (w3, Returns u) \<Rightarrow>
                              (case fetchDidFail_loop rest error ev orig
                                      pluginFilteredRequest w3 of
                                 (w4, calls, res) \<Rightarrow>
                                   (w4,
                                    FetchDidFail (plugin_id plugin) error ev originalClone
                                      requestClone (Returns u) # calls,
                                    res)))))))"

definition normalize_request :: "request_input \<Rightarrow> 's world \<Rightarrow> 's world \<times> Request" where
  \<comment> \<open>Lines 47-49.\<close>
  "normalize_request given w = (case given of Url s \<Rightarrow> new_Request s w | Req r \<Rightarrow> (w, r))"

definition given_plugins :: "'s WrappedFetchOptions \<Rightarrow> 's Plugin list" where
  \<comment> \<open>The default of the parameter: \<^verbatim>\<open>plugins = []\<close>.\<close>
  "given_plugins options = (case plugins options of None \<Rightarrow> [] | Some ps \<Rightarrow> ps)"

definition wrappedFetch ::
  "'s env \<Rightarrow> 's WrappedFetchOptions \<Rightarrow> 's world
     \<Rightarrow> 's world \<times> call list \<times> (failure + Response option)" where
  \<comment> \<open>Lines 40-172. The result is the world after the invocation, the calls made, and
      what is thrown (\<open>Inl\<close>) or returned (\<open>Inr\<close>; \<open>None\<close> is \<^verbatim>\<open>undefined\<close>). The first
      \<^verbatim>\<open>catch\<close> (line 106) wraps what the first loop throws; the clone of line 115 is
      outside both \<^verbatim>\<open>try\<close> blocks; the second \<^verbatim>\<open>catch\<close> (line 155) runs the failure loop and
      throws the caught error again.\<close>
  "wrappedFetch env options w0 =
     (let ps = given_plugins options; ev = event options in
      case normalize_request (request options) w0 of
        (w1, r) \<Rightarrow>
          (case possiblePreloadResponse ev of
             Inl e \<Rightarrow> (w1, [], Inl (Raw (Thrown e)))
           | Inr (Some response) \<Rightarrow> (w1, [], Inr (Some response))
           | Inr None \<Rightarrow>
               (let failedFetchPlugins = pluginUtils_filter ps FETCH_DID_FAIL in
                case originalRequest failedFetchPlugins r w1 of
                  (w2, orig) \<Rightarrow>
                    (case requestWillFetch_loop ps ev (Some r) w2 of
                       (w3, calls1, Inl err) \<Rightarrow>
                         (w3, calls1,
                          Inl (Workbox (new_WorkboxError (messageGenerator env)
                                 ''plugin-error-request-will-fetch''
                                 (no_details\<lparr>thrownError := Some err\<rparr>))))
                     | (w3, calls1, Inr None) \<Rightarrow>
                         (w3, calls1, Inl (Raw (TypeError Undefined ''clone'')))
                     | (w3, calls1, Inr (Some current)) \<Rightarrow>
                         (case clone current w3 of
                            (w4, pluginFilteredRequest) \<Rightarrow>
                              (case try_fetch env ps ev (fetchOptions options) current
                                      pluginFilteredRequest w4 of
                                 (w5, calls2, Inr fetchResponse) \<Rightarrow>
                                   (w5, calls1 @ calls2, Inr fetchResponse)
                               | (w5, calls2, Inl error) \<Rightarrow>
                                   (case fetchDidFail_loop failedFetchPlugins error ev orig
                                           pluginFilteredRequest w5 of
                                      (w6, calls3, Some e) \<Rightarrow>
                                        (w6, calls1 @ calls2 @ calls3, Inl (Raw e))
                                    | (w6, calls3, None) \<Rightarrow>
                                        (w6, calls1 @ calls2 @ calls3, Inl (Raw error)))))))))"

section \<open>Reading the calls of an invocation\<close>

definition same_fields :: "Request \<Rightarrow> Request \<Rightarrow> bool" where
  "same_fields c r \<longleftrightarrow>
     Request.url c = Request.url r \<and> Request.method c = Request.method r \<and> mode c = mode r"


fun value_of :: "'a option outcome \<Rightarrow> 'a option" where
  \<comment> \<open>What the assignment \<^verbatim>\<open>x = await hook(...)\<close> stores; nothing is stored when the hook throws.\<close>
  "value_of (Returns v) = v"
| "value_of (Throws e) = None"

section \<open>Conditions on plugins\<close>




section \<open>Example invocations\<close>

definition ex_world :: "unit world" where
  "ex_world = \<lparr>next_id = 10, outside = ()\<rparr>"

definition ex_request :: Request where
  "ex_request = \<lparr>req_id = 3, url = ''/x'', method = ''GET'', mode = ''cors''\<rparr>"

definition ex_navigation :: Request where
  "ex_navigation = \<lparr>req_id = 4, url = ''/x'', method = ''GET'', mode = ''navigate''\<rparr>"

definition ex_response :: Response where
  "ex_response = \<lparr>status = 200, body = ''from the network''\<rparr>"

definition ex_preloaded :: Response where
  "ex_preloaded = \<lparr>status = 200, body = ''preloaded''\<rparr>"

definition ex_replacement :: Response where
  "ex_replacement = \<lparr>status = 203, body = ''replaced''\<rparr>"

definition ex_fetch :: "Request \<Rightarrow> fetchOptions option \<Rightarrow> unit world \<Rightarrow> unit world \<times> Response outcome" where
  "ex_fetch r opts w = (w, Returns ex_response)"

definition ex_offline :: "Request \<Rightarrow> fetchOptions option \<Rightarrow> unit world \<Rightarrow> unit world \<times> Response outcome" where
  "ex_offline r opts w = (w, Throws 7)"

definition ex_messageGenerator :: "string \<Rightarrow> WorkboxErrorDetails \<Rightarrow> string" where
  "ex_messageGenerator code ds = code"

definition ex_env :: "unit env" where
  "ex_env = \<lparr>fetch = ex_fetch, messageGenerator = ex_messageGenerator\<rparr>"

definition ex_env_offline :: "unit env" where
  "ex_env_offline = \<lparr>fetch = ex_offline, messageGenerator = ex_messageGenerator\<rparr>"

definition ex_rewrite ::
  "string \<Rightarrow> Request \<Rightarrow> event option \<Rightarrow> unit world \<Rightarrow> unit world \<times> Request option outcome" where
  \<comment> \<open>\<^verbatim>\<open>requestWillFetch: ({request}) => new Request(target, request)\<close>\<close>
  "ex_rewrite target c ev w =
     (w\<lparr>next_id := Suc (next_id w)\<rparr>, Returns (Some (c\<lparr>req_id := next_id w, Request.url := target\<rparr>)))"

definition ex_returns_nothing ::
  "Request \<Rightarrow> event option \<Rightarrow> unit world \<Rightarrow> unit world \<times> Request option outcome" where
  \<comment> \<open>\<^verbatim>\<open>requestWillFetch: ({request}) => {}\<close>\<close>
  "ex_returns_nothing c ev w = (w, Returns None)"

definition ex_rejects ::
  "Request \<Rightarrow> event option \<Rightarrow> unit world \<Rightarrow> unit world \<times> Request option outcome" where
  "ex_rejects c ev w = (w, Throws 41)"

definition ex_replace ::
  "event option \<Rightarrow> Request \<Rightarrow> Response option \<Rightarrow> unit world \<Rightarrow> unit world \<times> Response option outcome" where
  "ex_replace ev r response w = (w, Returns (Some ex_replacement))"

definition ex_pass ::
  "event option \<Rightarrow> Request \<Rightarrow> Response option \<Rightarrow> unit world \<Rightarrow> unit world \<times> Response option outcome" where
  "ex_pass ev r response w = (w, Returns response)"

definition ex_silent ::
  "event option \<Rightarrow> Request \<Rightarrow> Response option \<Rightarrow> unit world \<Rightarrow> unit world \<times> Response option outcome" where
  \<comment> \<open>\<^verbatim>\<open>fetchDidSucceed: ({response}) => {}\<close>\<close>
  "ex_silent ev r response w = (w, Returns None)"

definition ex_observe ::
  "js_error \<Rightarrow> event option \<Rightarrow> Request \<Rightarrow> Request \<Rightarrow> unit world \<Rightarrow> unit world \<times> unit outcome" where
  "ex_observe err ev orig r w = (w, Returns ())"

definition ex_breaks ::
  "js_error \<Rightarrow> event option \<Rightarrow> Request \<Rightarrow> Request \<Rightarrow> unit world \<Rightarrow> unit world \<times> unit outcome" where
  "ex_breaks err ev orig r w = (w, Throws 43)"

definition ex_plugin :: "nat \<Rightarrow> unit Plugin" where
  \<comment> \<open>a plugin object with none of the three hooks\<close>
  "ex_plugin i =
     \<lparr>plugin_id = i, requestWillFetch = None, fetchDidSucceed = None, fetchDidFail = None\<rparr>"

definition ex_options :: "Request \<Rightarrow> unit Plugin list \<Rightarrow> unit WrappedFetchOptions" where
  "ex_options r ps =
     \<lparr>request = Req r, event = None, plugins = Some ps,
      fetchOptions = Some [(''credentials'', ''include'')]\<rparr>"

definition ex_two_rewrites :: "unit WrappedFetchOptions" where
  "ex_two_rewrites =
     ex_options ex_request
       [(ex_plugin 1)\<lparr>requestWillFetch := Some (ex_rewrite ''/y'')\<rparr>,
        (ex_plugin 2)\<lparr>requestWillFetch := Some (ex_rewrite ''/z'')\<rparr>]"

definition ex_rejecting :: "unit WrappedFetchOptions" where
  "ex_rejecting =
     ex_options ex_request
       [(ex_plugin 1)\<lparr>requestWillFetch := Some ex_rejects\<rparr>,
        (ex_plugin 2)\<lparr>fetchDidFail := Some ex_observe\<rparr>]"

definition ex_preloading :: "unit WrappedFetchOptions" where
  "ex_preloading =
     (ex_options ex_navigation
        [(ex_plugin 1)\<lparr>requestWillFetch := Some (ex_rewrite ''/y''),
                        fetchDidSucceed := Some ex_replace\<rparr>])
       \<lparr>event := Some (FetchEvent (Some (Resolved (Some ex_preloaded))))\<rparr>"

definition ex_void :: "unit WrappedFetchOptions" where
  "ex_void = ex_options ex_request [(ex_plugin 1)\<lparr>requestWillFetch := Some ex_returns_nothing\<rparr>]"

definition ex_two_observers :: "unit WrappedFetchOptions" where
  "ex_two_observers =
     ex_options ex_request
       [(ex_plugin 1)\<lparr>fetchDidFail := Some ex_observe\<rparr>,
        (ex_plugin 2)\<lparr>requestWillFetch := Some (ex_rewrite ''/y'')\<rparr>,
        (ex_plugin 3)\<lparr>fetchDidFail := Some ex_observe\<rparr>]"

definition ex_breaking :: "unit WrappedFetchOptions" where
  "ex_breaking =
     ex_options ex_request
       [(ex_plugin 1)\<lparr>fetchDidFail := Some ex_breaks\<rparr>,
        (ex_plugin 2)\<lparr>fetchDidFail := Some ex_observe\<rparr>]"

definition ex_unobserved :: "unit WrappedFetchOptions" where
  "ex_unobserved =
     ex_options ex_request [(ex_plugin 1)\<lparr>requestWillFetch := Some (ex_rewrite ''/y'')\<rparr>]"

definition ex_replacing :: "unit WrappedFetchOptions" where
  "ex_replacing =
     ex_options ex_request
       [(ex_plugin 1)\<lparr>fetchDidSucceed := Some ex_replace\<rparr>,
        (ex_plugin 2)\<lparr>fetchDidSucceed := Some ex_pass\<rparr>,
        (ex_plugin 3)\<lparr>fetchDidSucceed := Some ex_pass\<rparr>]"

definition ex_silenced :: "unit WrappedFetchOptions" where
  "ex_silenced =
     ex_options ex_request
       [(ex_plugin 1)\<lparr>fetchDidSucceed := Some ex_silent\<rparr>,
        (ex_plugin 2)\<lparr>fetchDidSucceed := Some ex_silent\<rparr>]"

section \<open>The loops\<close>

lemma requestWillFetch_loop_only:
  "requestWillFetch_loop ps ev cur w = (w', cs, res) \<Longrightarrow> \<forall>c\<in>set cs. is_RequestWillFetch c"
  by (induction ps arbitrary: cur w w' cs res)
     (auto split: option.splits prod.splits outcome.splits)

lemma requestWillFetch_loop_throws:
  "requestWillFetch_loop ps ev cur w = (w', cs, res) \<Longrightarrow>
   RequestWillFetch p c ev' (Throws e) \<in> set cs \<Longrightarrow>
   res = Inl (Thrown e) \<and> last cs = RequestWillFetch p c ev' (Throws e)"
  by (induction ps arbitrary: cur w w' cs res)
     (auto split: option.splits prod.splits outcome.splits)






lemma fetchDidSucceed_loop_only:
  "fetchDidSucceed_loop ps ev pfr cur w = (w', cs, res) \<Longrightarrow>
   \<forall>c\<in>set cs. is_FetchDidSucceed c \<and> event_arg c = ev \<and> request_arg c = pfr"
  by (induction ps arbitrary: cur w w' cs res)
     (auto split: option.splits prod.splits outcome.splits)


lemma fetchDidSucceed_loop_chain:
  "fetchDidSucceed_loop ps ev pfr cur w = (w', cs, res) \<Longrightarrow>
   map response_arg cs = butlast (cur # map (value_of \<circ> returned_response) cs) \<and>
   (\<forall>v. res = Inr v \<longrightarrow>
      v = last (cur # map (value_of \<circ> returned_response) cs) \<and>
      (\<forall>c\<in>set cs. \<exists>x. returned_response c = Returns x) \<and>
      map called_plugin cs = map plugin_id (pluginUtils_filter ps FETCH_DID_SUCCEED))"
proof (induction ps arbitrary: cur w w' cs res)
  case Nil
  then show ?case by (auto simp: pluginUtils_filter_def)
next
  case (Cons a ps)
  show ?case
  proof (cases "fetchDidSucceed a")
    case None
    with Cons show ?thesis by (simp add: pluginUtils_filter_def)
  next
    case (Some f)
    obtain w1 out where call: "f ev pfr cur w = (w1, out)" by (cases "f ev pfr cur w")
    show ?thesis
    proof (cases out)
      case (Throws e)
      with Cons.prems Some call show ?thesis by auto
    next
      case (Returns v)
      obtain w2 cs' res' where rest: "fetchDidSucceed_loop ps ev pfr v w1 = (w2, cs', res')"
        by (cases "fetchDidSucceed_loop ps ev pfr v w1") auto
      from Cons.prems Some call Returns rest
      have eqs: "cs = FetchDidSucceed (plugin_id a) ev pfr cur (Returns v) # cs'" "res = res'"
        by auto
      from Cons.IH[OF rest] Some show ?thesis
        unfolding eqs by (cases cs') (auto simp: pluginUtils_filter_def)
    qed
  qed
qed

lemma try_fetch_run:
  assumes "try_fetch env ps ev opts r pfr w = (w', cs, res)"
  obtains (rejected) e where
      "cs = [Fetch r (if mode r = ''navigate'' then None else opts) (Throws e)]"
      "res = Inl (Thrown e)"
  | (fetched) w1 fetchResponse cs' where
      "cs = Fetch r (if mode r = ''navigate'' then None else opts) (Returns fetchResponse) # cs'"
      "fetchDidSucceed_loop ps ev pfr (Some fetchResponse) w1 = (w', cs', res)"
  using assms unfolding try_fetch_def Let_def
  by (auto split: prod.splits outcome.splits)

lemma fetchDidFail_loop_only:
  "fetchDidFail_loop fs error ev orig pfr w = (w', cs, res) \<Longrightarrow>
   \<forall>c\<in>set cs. is_FetchDidFail c \<and> error_arg c = error \<and> event_arg c = ev \<and>
     (\<forall>original. orig = Some original \<longrightarrow> same_fields (originalRequest_arg c) original) \<and>
     same_fields (request_arg c) pfr"
  by (induction fs arbitrary: w w' cs res)
     (auto simp: clone_def same_fields_def split: option.splits prod.splits outcome.splits)

lemma fetchDidFail_loop_throws:
  "fetchDidFail_loop fs error ev orig pfr w = (w', cs, res) \<Longrightarrow>
   FetchDidFail p err ev' o' r' (Throws x) \<in> set cs \<Longrightarrow>
   res = Some (Thrown x) \<and> last cs = FetchDidFail p err ev' o' r' (Throws x)"
  by (induction fs arbitrary: w w' cs res)
     (auto split: option.splits prod.splits outcome.splits)

lemma fetchDidFail_loop_prefix:
  "fetchDidFail_loop fs error ev orig pfr w = (w', cs, res) \<Longrightarrow>
   map called_plugin cs = take (length cs) (map plugin_id fs)"
  by (induction fs arbitrary: w w' cs res)
     (auto split: option.splits prod.splits outcome.splits)




lemma wrappedFetch_run:
  assumes "wrappedFetch env options w0 = (w', calls, res)"
  obtains (rejected) e where
      "possiblePreloadResponse (event options) = Inl e" "calls = []" "res = Inl (Raw (Thrown e))"
  | (preloaded) response where
      "possiblePreloadResponse (event options) = Inr (Some response)"
      "calls = []" "res = Inr (Some response)"
  | (preflight) w1 r0 w2 orig w3 err where
      "possiblePreloadResponse (event options) = Inr None"
      "normalize_request (request options) w0 = (w1, r0)"
      "originalRequest (pluginUtils_filter (given_plugins options) FETCH_DID_FAIL) r0 w1 = (w2, orig)"
      "requestWillFetch_loop (given_plugins options) (event options) (Some r0) w2 = (w3, calls, Inl err)"
      "res = Inl (Workbox (new_WorkboxError (messageGenerator env)
                ''plugin-error-request-will-fetch'' (no_details\<lparr>thrownError := Some err\<rparr>)))"
  | (lost) w1 r0 w2 orig w3 where
      "possiblePreloadResponse (event options) = Inr None"
      "normalize_request (request options) w0 = (w1, r0)"
      "originalRequest (pluginUtils_filter (given_plugins options) FETCH_DID_FAIL) r0 w1 = (w2, orig)"
      "requestWillFetch_loop (given_plugins options) (event options) (Some r0) w2 = (w3, calls, Inr None)"
      "res = Inl (Raw (TypeError Undefined ''clone''))"
  | (succeeded) w1 r0 w2 orig w3 calls1 current w4 pfr calls2 fetchResponse where
      "possiblePreloadResponse (event options) = Inr None"
      "normalize_request (request options) w0 = (w1, r0)"
      "originalRequest (pluginUtils_filter (given_plugins options) FETCH_DID_FAIL) r0 w1 = (w2, orig)"
      "requestWillFetch_loop (given_plugins options) (event options) (Some r0) w2
         = (w3, calls1, Inr (Some current))"
      "clone current w3 = (w4, pfr)"
      "try_fetch env (given_plugins options) (event options) (fetchOptions options) current pfr w4
         = (w', calls2, Inr fetchResponse)"
      "calls = calls1 @ calls2" "res = Inr fetchResponse"
  | (failed) w1 r0 w2 orig w3 calls1 current w4 pfr w5 calls2 error calls3 thrown where
      "possiblePreloadResponse (event options) = Inr None"
      "normalize_request (request options) w0 = (w1, r0)"
      "originalRequest (pluginUtils_filter (given_plugins options) FETCH_DID_FAIL) r0 w1 = (w2, orig)"
      "requestWillFetch_loop (given_plugins options) (event options) (Some r0) w2
         = (w3, calls1, Inr (Some current))"
      "clone current w3 = (w4, pfr)"
      "try_fetch env (given_plugins options) (event options) (fetchOptions options) current pfr w4
         = (w5, calls2, Inl error)"
      "fetchDidFail_loop (pluginUtils_filter (given_plugins options) FETCH_DID_FAIL) error
         (event options) orig pfr w5 = (w', calls3, thrown)"
      "calls = calls1 @ calls2 @ calls3"
      "res = Inl (Raw (case thrown of None \<Rightarrow> error | Some e \<Rightarrow> e))"
  using assms unfolding wrappedFetch_def Let_def
  by (auto split: prod.splits sum.splits option.splits)

lemma call_kinds:
  "is_RequestWillFetch c \<Longrightarrow> \<not> is_Fetch c \<and> \<not> is_FetchDidSucceed c \<and> \<not> is_FetchDidFail c"
  "is_FetchDidSucceed c \<Longrightarrow> \<not> is_Fetch c \<and> \<not> is_RequestWillFetch c \<and> \<not> is_FetchDidFail c"
  "is_FetchDidFail c \<Longrightarrow> \<not> is_Fetch c \<and> \<not> is_RequestWillFetch c \<and> \<not> is_FetchDidSucceed c"
  by (cases c; simp)+

lemma calls_of_requestWillFetch_loop:
  assumes "requestWillFetch_loop ps ev cur w = (w', cs, res)"
  shows "filter is_RequestWillFetch cs = cs" "filter is_Fetch cs = []"
    "filter is_FetchDidSucceed cs = []" "filter is_FetchDidFail cs = []"
  using requestWillFetch_loop_only[OF assms] call_kinds(1)
  by (simp_all add: filter_empty_conv filter_id_conv)

lemma calls_of_fetchDidSucceed_loop:
  assumes "fetchDidSucceed_loop ps ev pfr cur w = (w', cs, res)"
  shows "filter is_RequestWillFetch cs = []" "filter is_Fetch cs = []"
    "filter is_FetchDidSucceed cs = cs" "filter is_FetchDidFail cs = []"
  using fetchDidSucceed_loop_only[OF assms] call_kinds(2)
  by (simp_all add: filter_empty_conv filter_id_conv)

lemma calls_of_fetchDidFail_loop:
  assumes "fetchDidFail_loop fs error ev orig pfr w = (w', cs, res)"
  shows "filter is_RequestWillFetch cs = []" "filter is_Fetch cs = []"
    "filter is_FetchDidSucceed cs = []" "filter is_FetchDidFail cs = cs"
  using fetchDidFail_loop_only[OF assms] call_kinds(3)
  by (simp_all add: filter_empty_conv filter_id_conv)

lemma calls_of_try_fetch:
  assumes "try_fetch env ps ev opts r pfr w = (w', cs, res)"
  shows "filter is_RequestWillFetch cs = []" "filter is_FetchDidFail cs = []"
    "\<exists>out. filter is_Fetch cs = [Fetch r (if mode r = ''navigate'' then None else opts) out]"
proof -
  from assms show "filter is_RequestWillFetch cs = []"
    by (cases rule: try_fetch_run) (simp_all add: calls_of_fetchDidSucceed_loop)
  from assms show "filter is_FetchDidFail cs = []"
    by (cases rule: try_fetch_run) (simp_all add: calls_of_fetchDidSucceed_loop)
  from assms show "\<exists>out. filter is_Fetch cs = [Fetch r (if mode r = ''navigate'' then None else opts) out]"
    by (cases rule: try_fetch_run) (simp_all add: calls_of_fetchDidSucceed_loop)
qed



lemma fetchDidSucceed_loop_last:
  "fetchDidSucceed_loop ps ev pfr cur w = (w', cs, Inl err) \<Longrightarrow>
   \<exists>e. err = Thrown e \<and> cs \<noteq> [] \<and> returned_response (last cs) = Throws e"
proof (induction ps arbitrary: cur w w' cs)
  case Nil
  then show ?case by auto
next
  case (Cons a ps)
  from Cons.prems show ?case
    by (fastforce split: option.splits prod.splits outcome.splits dest: Cons.IH)
qed


lemma not_called_before_fetch:
  assumes "requestWillFetch_loop ps ev cur w = (w', cs, res)"
  shows "Fetch r fo out \<notin> set cs" "FetchDidSucceed p ev' r resp out' \<notin> set cs"
    "FetchDidFail p err ev' orig r out'' \<notin> set cs"
  using requestWillFetch_loop_only[OF assms] by auto

lemma not_called_after_fetch:
  assumes "fetchDidFail_loop fs error ev orig pfr w = (w', cs, res)"
  shows "Fetch r fo out \<notin> set cs" "FetchDidSucceed p ev' r resp out' \<notin> set cs"
    "RequestWillFetch p r ev' out'' \<notin> set cs"
  using fetchDidFail_loop_only[OF assms] by auto

lemma not_called_by_try_fetch:
  assumes "try_fetch env ps ev opts r pfr w = (w', cs, res)"
  shows "FetchDidFail p err ev' orig r' out \<notin> set cs" "RequestWillFetch p r' ev' out' \<notin> set cs"
proof -
  from calls_of_try_fetch(2)[OF assms] show "FetchDidFail p err ev' orig r' out \<notin> set cs"
    by (auto simp: filter_empty_conv)
  from calls_of_try_fetch(1)[OF assms] show "RequestWillFetch p r' ev' out' \<notin> set cs"
    by (auto simp: filter_empty_conv)
qed


lemma try_fetch_fetched:
  assumes "try_fetch env ps ev opts r pfr w = (w', cs, res)"
      and "Fetch r' fo (Returns fetchResponse) \<in> set cs"
  shows "\<exists>w1. fetchDidSucceed_loop ps ev pfr (Some fetchResponse) w1
           = (w', filter is_FetchDidSucceed cs, res)"
  using assms(1)
proof (cases rule: try_fetch_run)
  case (rejected e)
  with assms(2) show ?thesis by simp
next
  case (fetched w1 resp cs')
  from fetchDidSucceed_loop_only[OF fetched(2)] have "\<forall>c\<in>set cs'. \<not> is_Fetch c"
    using call_kinds(2) by blast
  with assms(2) fetched(1) have "resp = fetchResponse"
    by auto
  with fetched show ?thesis
    by (auto simp: calls_of_fetchDidSucceed_loop[OF fetched(2)])
qed

lemma fetchDidSucceed_loop_steps:
  assumes "fetchDidSucceed_loop ps ev pfr cur w = (w', cs, sres)"
  shows "\<forall>k. Suc k < length cs \<longrightarrow>
           response_arg (cs ! Suc k) = value_of (returned_response (cs ! k))"
    and "cs \<noteq> [] \<longrightarrow> response_arg (cs ! 0) = cur"
    and "\<forall>v. cs \<noteq> [] \<and> returned_response (last cs) = Returns v \<longrightarrow> sres = Inr v"
    and "cs = [] \<longrightarrow> sres = Inr cur"
proof -
  let ?vals = "map (value_of \<circ> returned_response) cs"
  from fetchDidSucceed_loop_chain[OF assms]
  have args: "map response_arg cs = butlast (cur # ?vals)"
    and res: "\<forall>v. sres = Inr v \<longrightarrow> v = last (cur # ?vals)"
    by simp_all
  show "\<forall>k. Suc k < length cs \<longrightarrow>
           response_arg (cs ! Suc k) = value_of (returned_response (cs ! k))"
  proof (intro allI impI)
    fix k assume k: "Suc k < length cs"
    then have "response_arg (cs ! Suc k) = map response_arg cs ! Suc k" by simp
    also have "\<dots> = (cur # ?vals) ! Suc k"
      unfolding args by (rule nth_butlast) (use k in \<open>simp del: butlast.simps\<close>)
    also have "\<dots> = value_of (returned_response (cs ! k))" using k by simp
    finally show "response_arg (cs ! Suc k) = value_of (returned_response (cs ! k))" .
  qed
  show "cs \<noteq> [] \<longrightarrow> response_arg (cs ! 0) = cur"
  proof
    assume ne: "cs \<noteq> []"
    then have "response_arg (cs ! 0) = map response_arg cs ! 0" by simp
    also have "\<dots> = (cur # ?vals) ! 0"
      unfolding args by (rule nth_butlast) (use ne in \<open>simp del: butlast.simps\<close>)
    finally show "response_arg (cs ! 0) = cur" by simp
  qed
  show "\<forall>v. cs \<noteq> [] \<and> returned_response (last cs) = Returns v \<longrightarrow> sres = Inr v"
  proof (intro allI impI)
    fix v assume a: "cs \<noteq> [] \<and> returned_response (last cs) = Returns v"
    show "sres = Inr v"
    proof (cases sres)
      case (Inl err)
      with assms fetchDidSucceed_loop_last a show ?thesis by fastforce
    next
      case (Inr v')
      with res have "v' = last (cur # ?vals)" by simp
      with a Inr show ?thesis by (simp add: last_map)
    qed
  qed
  show "cs = [] \<longrightarrow> sres = Inr cur"
  proof
    assume "cs = []"
    with assms res show "sres = Inr cur"
      by (cases sres) (auto dest: fetchDidSucceed_loop_last)
  qed
qed

lemma fetchDidSucceed_calls_of_run:
  assumes "wrappedFetch env options w0 = (w', calls, res)"
      and "Fetch r fo (Returns fetchResponse) \<in> set calls"
  shows "\<exists>pfr w1 w2 sres.
           fetchDidSucceed_loop (given_plugins options) (event options) pfr (Some fetchResponse) w1
             = (w2, filter is_FetchDidSucceed calls, sres) \<and>
           (\<forall>v. sres = Inr v \<longrightarrow> res = Inr v)"
  using assms(1)
proof (cases rule: wrappedFetch_run)
  case (rejected e)
  with assms(2) show ?thesis by simp
next
  case (preloaded response)
  with assms(2) show ?thesis by simp
next
  case (preflight w1 r0 w2 orig w3 err)
  with assms(2) not_called_before_fetch[OF preflight(4)] show ?thesis by blast
next
  case (lost w1 r0 w2 orig w3)
  with assms(2) not_called_before_fetch[OF lost(4)] show ?thesis by blast
next
  case (succeeded w1 r0 w2 orig w3 calls1 current w4 pfr calls2 response)
  from assms(2) succeeded(7) not_called_before_fetch[OF succeeded(4)]
  have "Fetch r fo (Returns fetchResponse) \<in> set calls2" by auto
  from try_fetch_fetched[OF succeeded(6) this] succeeded(7,8) show ?thesis
    by (auto simp: calls_of_requestWillFetch_loop[OF succeeded(4)])
next
  case (failed w1 r0 w2 orig w3 calls1 current w4 pfr w5 calls2 error calls3 thrown)
  from assms(2) failed(8) not_called_before_fetch[OF failed(4)]
    not_called_after_fetch[OF failed(7)]
  have "Fetch r fo (Returns fetchResponse) \<in> set calls2" by auto
  from try_fetch_fetched[OF failed(6) this] failed(8) show ?thesis
    by (auto simp: calls_of_requestWillFetch_loop[OF failed(4)]
          calls_of_fetchDidFail_loop[OF failed(7)])
qed




section \<open>The example invocations, evaluated\<close>

lemmas ex_defs =
  ex_world_def ex_request_def ex_navigation_def ex_response_def ex_preloaded_def
  ex_replacement_def ex_fetch_def ex_offline_def ex_messageGenerator_def ex_env_def
  ex_env_offline_def ex_rewrite_def ex_returns_nothing_def ex_rejects_def ex_replace_def
  ex_pass_def ex_silent_def ex_observe_def ex_breaks_def ex_plugin_def
  ex_options_def

lemmas run_defs =
  wrappedFetch_def normalize_request_def given_plugins_def originalRequest_def
  pluginUtils_filter_def try_fetch_def clone_def new_Request_def new_WorkboxError_def
  no_details_def Let_def

lemmas scenario_defs =
  ex_two_rewrites_def ex_rejecting_def ex_preloading_def ex_void_def ex_two_observers_def
  ex_breaking_def ex_unobserved_def ex_replacing_def ex_silenced_def




lemma ex_breaking_run:
  "wrappedFetch ex_env_offline ex_breaking ex_world =
     (\<lparr>next_id = 14, outside = ()\<rparr>,
      [Fetch ex_request (Some [(''credentials'', ''include'')]) (Throws 7),
       FetchDidFail 1 (Thrown 7) None (ex_request\<lparr>req_id := 12\<rparr>)
         (ex_request\<lparr>req_id := 13\<rparr>) (Throws 43)],
      Inl (Raw (Thrown 43)))"
  by (simp add: scenario_defs ex_defs run_defs)

lemma ex_replacing_run:
  "wrappedFetch ex_env ex_replacing ex_world =
     (\<lparr>next_id = 11, outside = ()\<rparr>,
      [Fetch ex_request (Some [(''credentials'', ''include'')]) (Returns ex_response),
       FetchDidSucceed 1 None (ex_request\<lparr>req_id := 10\<rparr>) (Some ex_response)
         (Returns (Some ex_replacement)),
       FetchDidSucceed 2 None (ex_request\<lparr>req_id := 10\<rparr>) (Some ex_replacement)
         (Returns (Some ex_replacement)),
       FetchDidSucceed 3 None (ex_request\<lparr>req_id := 10\<rparr>) (Some ex_replacement)
         (Returns (Some ex_replacement))],
      Inr (Some ex_replacement))"
  by (simp add: scenario_defs ex_defs run_defs)

lemma ex_silenced_run:
  "wrappedFetch ex_env ex_silenced ex_world =
     (\<lparr>next_id = 11, outside = ()\<rparr>,
      [Fetch ex_request (Some [(''credentials'', ''include'')]) (Returns ex_response),
       FetchDidSucceed 1 None (ex_request\<lparr>req_id := 10\<rparr>) (Some ex_response) (Returns None),
       FetchDidSucceed 2 None (ex_request\<lparr>req_id := 10\<rparr>) None (Returns None)],
      Inr None)"
  by (simp add: scenario_defs ex_defs run_defs)

lemma ex_navigation_run:
  "wrappedFetch ex_env (ex_options ex_navigation []) ex_world =
     (\<lparr>next_id = 11, outside = ()\<rparr>,
      [Fetch ex_navigation None (Returns ex_response)],
      Inr (Some ex_response))"
  by (simp add: scenario_defs ex_defs run_defs)

lemma ex_plain_run:
  "wrappedFetch ex_env (ex_options ex_request []) ex_world =
     (\<lparr>next_id = 11, outside = ()\<rparr>,
      [Fetch ex_request (Some [(''credentials'', ''include'')]) (Returns ex_response)],
      Inr (Some ex_response))"
  by (simp add: scenario_defs ex_defs run_defs)

section \<open>The claims\<close>





text \<open>
  C3. When a \<^verbatim>\<open>requestWillFetch\<close> hook throws \<open>e\<close>, \<^verbatim>\<open>wrappedFetch\<close> throws the
  \<^verbatim>\<open>WorkboxError\<close> named \<^verbatim>\<open>plugin-error-request-will-fetch\<close> whose details carry \<open>e\<close> as
  \<^verbatim>\<open>thrownError\<close>; \<^verbatim>\<open>fetch\<close> is not called and no \<^verbatim>\<open>fetchDidFail\<close> hook is called.
\<close>

theorem requestWillFetch_throw_is_tagged:
  assumes "wrappedFetch env options w0 = (w', calls, res)"
      and "RequestWillFetch p c ev (Throws e) \<in> set calls"
  shows "(\<exists>err. res = Inl (Workbox err) \<and>
            name err = ''plugin-error-request-will-fetch'' \<and>
            thrownError (details err) = Some (Thrown e)) \<and>
         filter is_Fetch calls = [] \<and> filter is_FetchDidFail calls = []"
  using assms(1)
proof (cases rule: wrappedFetch_run)
  case (rejected e)
  with assms(2) show ?thesis by simp
next
  case (preloaded response)
  with assms(2) show ?thesis by simp
next
  case (preflight w1 r0 w2 orig w3 err)
  from requestWillFetch_loop_throws[OF preflight(4) assms(2)] have "err = Thrown e" by simp
  with preflight(5) calls_of_requestWillFetch_loop[OF preflight(4)] show ?thesis
    by (simp add: new_WorkboxError_def)
next
  case (lost w1 r0 w2 orig w3)
  from requestWillFetch_loop_throws[OF lost(4) assms(2)] show ?thesis by simp
next
  case (succeeded w1 r0 w2 orig w3 calls1 current w4 pfr calls2 fetchResponse)
  from assms(2) succeeded(7) calls_of_try_fetch(1)[OF succeeded(6)]
  have "RequestWillFetch p c ev (Throws e) \<in> set calls1"
    by (auto simp: filter_empty_conv)
  from requestWillFetch_loop_throws[OF succeeded(4) this] show ?thesis by simp
next
  case (failed w1 r0 w2 orig w3 calls1 current w4 pfr w5 calls2 error calls3 thrown)
  from assms(2) failed(8) calls_of_try_fetch(1)[OF failed(6)]
    calls_of_fetchDidFail_loop(1)[OF failed(7)]
  have "RequestWillFetch p c ev (Throws e) \<in> set calls1"
    by (auto simp: filter_empty_conv)
  from requestWillFetch_loop_throws[OF failed(4) this] show ?thesis by simp
qed

theorem requestWillFetch_throw_is_tagged_witness:
  "(\<exists>err. snd (snd (wrappedFetch ex_env ex_rejecting ex_world)) = Inl (Workbox err) \<and>
      name err = ''plugin-error-request-will-fetch'' \<and>
      thrownError (details err) = Some (Thrown 41)) \<and>
   filter is_Fetch (fst (snd (wrappedFetch ex_env ex_rejecting ex_world))) = [] \<and>
   filter is_FetchDidFail (fst (snd (wrappedFetch ex_env ex_rejecting ex_world))) = []"
proof (rule requestWillFetch_throw_is_tagged)
  show "wrappedFetch ex_env ex_rejecting ex_world =
          (fst (wrappedFetch ex_env ex_rejecting ex_world),
           fst (snd (wrappedFetch ex_env ex_rejecting ex_world)),
           snd (snd (wrappedFetch ex_env ex_rejecting ex_world)))"
    by simp
  show "RequestWillFetch 1 (ex_request\<lparr>req_id := 11\<rparr>) None (Throws 41)
          \<in> set (fst (snd (wrappedFetch ex_env ex_rejecting ex_world)))"
    by (simp add: ex_rejecting_def ex_defs run_defs)
qed

text \<open>
  C4. When the event is a \<^verbatim>\<open>FetchEvent\<close> whose \<^verbatim>\<open>preloadResponse\<close> promise resolves to a
  response, that response is returned as it is and no call is made: no
  \<^verbatim>\<open>requestWillFetch\<close> hook, no \<^verbatim>\<open>fetchDidSucceed\<close> hook, no \<^verbatim>\<open>fetch\<close>.
\<close>

theorem preload_short_circuit:
  "event options = Some (FetchEvent (Some (Resolved (Some response)))) \<Longrightarrow>
   snd (wrappedFetch env options w) = ([], Inr (Some response))"
  by (simp add: wrappedFetch_def Let_def split: prod.splits)

theorem preload_short_circuit_witness:
  "snd (wrappedFetch ex_env ex_preloading ex_world) = ([], Inr (Some ex_preloaded))"
  by (rule preload_short_circuit) (simp add: ex_preloading_def ex_defs)




text \<open>
  C6. After a successful \<^verbatim>\<open>fetch\<close>, a response that \<^verbatim>\<open>fetchDidSucceed\<close> hook i returns is
  the response the following hooks receive and the response returned to the caller, as
  long as the hooks in between return the response they received.
\<close>

theorem fetchDidSucceed_replacement_propagates:
  assumes "wrappedFetch env options w0 = (w', calls, res)"
      and "Fetch r fo (Returns fetchResponse) \<in> set calls"
      and "i < length (filter is_FetchDidSucceed calls)"
      and "returned_response (filter is_FetchDidSucceed calls ! i) = Returns (Some replacement)"
      and "i < j" and "j \<le> length (filter is_FetchDidSucceed calls)"
      and "\<forall>k. i < k \<and> k < j \<longrightarrow>
             returned_response (filter is_FetchDidSucceed calls ! k) =
               Returns (response_arg (filter is_FetchDidSucceed calls ! k))"
  shows "if j < length (filter is_FetchDidSucceed calls)
         then response_arg (filter is_FetchDidSucceed calls ! j) = Some replacement
         else res = Inr (Some replacement)"
proof -
  let ?fs = "filter is_FetchDidSucceed calls"
  from fetchDidSucceed_calls_of_run[OF assms(1,2)] obtain pfr w1 w2 sres where
    loop: "fetchDidSucceed_loop (given_plugins options) (event options) pfr (Some fetchResponse) w1
             = (w2, ?fs, sres)"
    and res: "\<forall>v. sres = Inr v \<longrightarrow> res = Inr v"
    by blast
  note steps = fetchDidSucceed_loop_steps[OF loop]
  have reach: "i < m \<Longrightarrow> m \<le> j \<Longrightarrow> value_of (returned_response (?fs ! (m - 1))) = Some replacement" for m
  proof (induction m)
    case 0
    then show ?case by simp
  next
    case (Suc m)
    show ?case
    proof (cases "m = i")
      case True
      with assms(4) show ?thesis by simp
    next
      case False
      with Suc.prems have m: "i < m" "m < j" "m \<le> j" by simp_all
      with assms(6) have "Suc (m - 1) < length ?fs" by simp
      with steps(1) have "response_arg (?fs ! Suc (m - 1)) = value_of (returned_response (?fs ! (m - 1)))"
        by blast
      with m Suc.IH have "response_arg (?fs ! m) = Some replacement" by simp
      moreover from assms(7) m have "returned_response (?fs ! m) = Returns (response_arg (?fs ! m))"
        by simp
      ultimately show ?thesis by simp
    qed
  qed
  from assms(5) have last: "value_of (returned_response (?fs ! (j - 1))) = Some replacement"
    using reach[of j] by simp
  show ?thesis
  proof (cases "j < length ?fs")
    case True
    with assms(5) have "Suc (j - 1) < length ?fs" by simp
    with steps(1) have "response_arg (?fs ! Suc (j - 1)) = value_of (returned_response (?fs ! (j - 1)))"
      by blast
    with last assms(5) True show ?thesis by simp
  next
    case False
    with assms(6) have j: "j = length ?fs" by simp
    with assms(5) have ne: "?fs \<noteq> []" by auto
    have "\<exists>v. returned_response (?fs ! (j - 1)) = Returns v"
    proof (cases "j - 1 = i")
      case True
      with assms(4) show ?thesis by simp
    next
      case False
      with assms(5) have "i < j - 1 \<and> j - 1 < j" by simp
      with assms(7) show ?thesis by blast
    qed
    then obtain v where v: "returned_response (?fs ! (j - 1)) = Returns v" by blast
    with last have "v = Some replacement" by simp
    with v j ne have "returned_response (last ?fs) = Returns (Some replacement)"
      by (simp add: last_conv_nth)
    with steps(3) ne res have "res = Inr (Some replacement)" by blast
    with False show ?thesis by simp
  qed
qed

theorem fetchDidSucceed_replacement_propagates_witness:
  "response_arg (filter is_FetchDidSucceed (fst (snd (wrappedFetch ex_env ex_replacing ex_world))) ! 2)
     = Some ex_replacement \<and>
   snd (snd (wrappedFetch ex_env ex_replacing ex_world)) = Inr (Some ex_replacement)"
proof -
  let ?calls = "fst (snd (wrappedFetch ex_env ex_replacing ex_world))"
  let ?fs = "filter is_FetchDidSucceed ?calls"
  have fs: "?fs =
      [FetchDidSucceed 1 None (ex_request\<lparr>req_id := 10\<rparr>) (Some ex_response)
         (Returns (Some ex_replacement)),
       FetchDidSucceed 2 None (ex_request\<lparr>req_id := 10\<rparr>) (Some ex_replacement)
         (Returns (Some ex_replacement)),
       FetchDidSucceed 3 None (ex_request\<lparr>req_id := 10\<rparr>) (Some ex_replacement)
         (Returns (Some ex_replacement))]"
    by (simp add: ex_replacing_run)
  have run: "wrappedFetch ex_env ex_replacing ex_world =
      (fst (wrappedFetch ex_env ex_replacing ex_world), ?calls,
       snd (snd (wrappedFetch ex_env ex_replacing ex_world)))"
    by simp
  have fetched: "Fetch ex_request (Some [(''credentials'', ''include'')]) (Returns ex_response)
      \<in> set ?calls"
    by (simp add: ex_replacing_run)
  have first: "0 < length ?fs" "returned_response (?fs ! 0) = Returns (Some ex_replacement)"
    by (simp_all add: fs)
  have pass: "\<forall>k. 0 < k \<and> k < j \<longrightarrow> returned_response (?fs ! k) = Returns (response_arg (?fs ! k))"
    if "j \<le> 3" for j
  proof (intro allI impI)
    fix k assume "0 < k \<and> k < j"
    with that have "k = 1 \<or> k = 2" by auto
    then show "returned_response (?fs ! k) = Returns (response_arg (?fs ! k))"
      by (auto simp: fs)
  qed
  from fetchDidSucceed_replacement_propagates[OF run fetched first, of 2] pass[of 2]
  have "response_arg (?fs ! 2) = Some ex_replacement"
    by (simp add: fs)
  moreover
  from fetchDidSucceed_replacement_propagates[OF run fetched first, of 3] pass[of 3]
  have "snd (snd (wrappedFetch ex_env ex_replacing ex_world)) = Inr (Some ex_replacement)"
    by (simp add: fs)
  ultimately show ?thesis by simp
qed

text \<open>
  C7, as amended. Whenever \<^verbatim>\<open>fetch\<close> is called, it is called once; for a request whose
  \<^verbatim>\<open>mode\<close> is \<^verbatim>\<open>navigate\<close> it is called with the request alone, otherwise with the
  \<^verbatim>\<open>fetchOptions\<close> of the invocation as they were given.
\<close>

theorem fetch_options_by_mode:
  assumes "wrappedFetch env options w0 = (w', calls, res)"
      and "Fetch r fo out \<in> set calls"
  shows "fo = (if mode r = ''navigate'' then None else fetchOptions options) \<and>
         filter is_Fetch calls = [Fetch r fo out]"
  using assms(1)
proof (cases rule: wrappedFetch_run)
  case (rejected e)
  with assms(2) show ?thesis by simp
next
  case (preloaded response)
  with assms(2) show ?thesis by simp
next
  case (preflight w1 r0 w2 orig w3 err)
  with assms(2) not_called_before_fetch[OF preflight(4)] show ?thesis by blast
next
  case (lost w1 r0 w2 orig w3)
  with assms(2) not_called_before_fetch[OF lost(4)] show ?thesis by blast
next
  case (succeeded w1 r0 w2 orig w3 calls1 current w4 pfr calls2 response)
  from calls_of_try_fetch(3)[OF succeeded(6)] obtain out' where
    "filter is_Fetch calls2 =
       [Fetch current (if mode current = ''navigate'' then None else fetchOptions options) out']"
    by blast
  then have f: "filter is_Fetch calls =
       [Fetch current (if mode current = ''navigate'' then None else fetchOptions options) out']"
    unfolding succeeded(7) by (simp add: calls_of_requestWillFetch_loop[OF succeeded(4)])
  from assms(2) have "Fetch r fo out \<in> set (filter is_Fetch calls)" by simp
  with f show ?thesis by simp
next
  case (failed w1 r0 w2 orig w3 calls1 current w4 pfr w5 calls2 error calls3 thrown)
  from calls_of_try_fetch(3)[OF failed(6)] obtain out' where
    "filter is_Fetch calls2 =
       [Fetch current (if mode current = ''navigate'' then None else fetchOptions options) out']"
    by blast
  then have f: "filter is_Fetch calls =
       [Fetch current (if mode current = ''navigate'' then None else fetchOptions options) out']"
    unfolding failed(8)
    by (simp add: calls_of_requestWillFetch_loop[OF failed(4)]
          calls_of_fetchDidFail_loop[OF failed(7)])
  from assms(2) have "Fetch r fo out \<in> set (filter is_Fetch calls)" by simp
  with f show ?thesis by simp
qed

theorem fetch_options_by_mode_witness:
  "None = (if mode ex_navigation = ''navigate'' then None
           else fetchOptions (ex_options ex_navigation [])) \<and>
   filter is_Fetch (fst (snd (wrappedFetch ex_env (ex_options ex_navigation []) ex_world))) =
     [Fetch ex_navigation None (Returns ex_response)]"
proof (rule fetch_options_by_mode)
  show "wrappedFetch ex_env (ex_options ex_navigation []) ex_world =
          (fst (wrappedFetch ex_env (ex_options ex_navigation []) ex_world),
           fst (snd (wrappedFetch ex_env (ex_options ex_navigation []) ex_world)),
           snd (snd (wrappedFetch ex_env (ex_options ex_navigation []) ex_world)))"
    by simp
  show "Fetch ex_navigation None (Returns ex_response)
          \<in> set (fst (snd (wrappedFetch ex_env (ex_options ex_navigation []) ex_world)))"
    by (simp add: ex_navigation_run)
qed

text \<open>
  C7 as stated reads the request's method. Two requests with the same method, \<^verbatim>\<open>GET\<close>,
  and the same \<^verbatim>\<open>fetchOptions\<close> are sent differently: the one whose mode is \<^verbatim>\<open>navigate\<close>
  without the options, the other with them.
\<close>

theorem fetch_options_by_method_counterexample:
  "Request.method ex_navigation = Request.method ex_request \<and>
   wrappedFetch ex_env (ex_options ex_navigation []) ex_world =
     (\<lparr>next_id = 11, outside = ()\<rparr>,
      [Fetch ex_navigation None (Returns ex_response)],
      Inr (Some ex_response)) \<and>
   wrappedFetch ex_env (ex_options ex_request []) ex_world =
     (\<lparr>next_id = 11, outside = ()\<rparr>,
      [Fetch ex_request (fetchOptions (ex_options ex_request [])) (Returns ex_response)],
      Inr (Some ex_response)) \<and>
   fetchOptions (ex_options ex_navigation []) = Some [(''credentials'', ''include'')] \<and>
   fetchOptions (ex_options ex_request []) = Some [(''credentials'', ''include'')]"
proof -
  have "Request.method ex_navigation = Request.method ex_request"
    by (simp add: ex_navigation_def ex_request_def)
  moreover have "fetchOptions (ex_options r []) = Some [(''credentials'', ''include'')]" for r
    by (simp add: ex_options_def)
  ultimately show ?thesis
    by (simp add: ex_navigation_run ex_plain_run)
qed

text \<open>
  C8. When a \<^verbatim>\<open>fetchDidFail\<close> hook throws \<open>x\<close>, \<^verbatim>\<open>wrappedFetch\<close> throws \<open>x\<close>, not the error
  the hooks were called for; the throwing call is the last call of the invocation, so
  the failing plugins after it in registration order are not called.
\<close>

theorem fetchDidFail_throw_propagates:
  assumes "wrappedFetch env options w0 = (w', calls, res)"
      and "FetchDidFail p err ev orig r (Throws x) \<in> set calls"
  shows "res = Inl (Raw (Thrown x)) \<and>
         last calls = FetchDidFail p err ev orig r (Throws x) \<and>
         map called_plugin (filter is_FetchDidFail calls) =
           take (length (filter is_FetchDidFail calls))
             (map plugin_id (pluginUtils_filter (given_plugins options) FETCH_DID_FAIL))"
  using assms(1)
proof (cases rule: wrappedFetch_run)
  case (rejected e)
  with assms(2) show ?thesis by simp
next
  case (preloaded response)
  with assms(2) show ?thesis by simp
next
  case (preflight w1 r0 w2 orig' w3 err')
  with assms(2) not_called_before_fetch[OF preflight(4)] show ?thesis by blast
next
  case (lost w1 r0 w2 orig' w3)
  with assms(2) not_called_before_fetch[OF lost(4)] show ?thesis by blast
next
  case (succeeded w1 r0 w2 orig' w3 calls1 current w4 pfr calls2 fetchResponse)
  with assms(2) not_called_before_fetch[OF succeeded(4)] not_called_by_try_fetch[OF succeeded(6)]
  show ?thesis by auto
next
  case (failed w1 r0 w2 orig' w3 calls1 current w4 pfr w5 calls2 error calls3 thrown)
  from assms(2) failed(8) not_called_before_fetch[OF failed(4)]
    not_called_by_try_fetch[OF failed(6)]
  have mem: "FetchDidFail p err ev orig r (Throws x) \<in> set calls3" by auto
  from fetchDidFail_loop_throws[OF failed(7) mem]
  have 1: "thrown = Some (Thrown x)" "last calls3 = FetchDidFail p err ev orig r (Throws x)"
    by simp_all
  from mem have ne: "calls3 \<noteq> []" by auto
  have fdf: "filter is_FetchDidFail calls = calls3"
    unfolding failed(8)
    by (simp add: calls_of_requestWillFetch_loop[OF failed(4)]
          calls_of_try_fetch[OF failed(6)] calls_of_fetchDidFail_loop[OF failed(7)])
  from 1 ne failed(8,9) fetchDidFail_loop_prefix[OF failed(7)] show ?thesis
    unfolding fdf by simp
qed

theorem fetchDidFail_throw_propagates_witness:
  "snd (snd (wrappedFetch ex_env_offline ex_breaking ex_world)) = Inl (Raw (Thrown 43)) \<and>
   last (fst (snd (wrappedFetch ex_env_offline ex_breaking ex_world))) =
     FetchDidFail 1 (Thrown 7) None (ex_request\<lparr>req_id := 12\<rparr>) (ex_request\<lparr>req_id := 13\<rparr>)
       (Throws 43) \<and>
   map called_plugin (filter is_FetchDidFail (fst (snd (wrappedFetch ex_env_offline ex_breaking ex_world)))) =
     take (length (filter is_FetchDidFail (fst (snd (wrappedFetch ex_env_offline ex_breaking ex_world)))))
       (map plugin_id (pluginUtils_filter (given_plugins ex_breaking) FETCH_DID_FAIL))"
proof (rule fetchDidFail_throw_propagates)
  show "wrappedFetch ex_env_offline ex_breaking ex_world =
          (fst (wrappedFetch ex_env_offline ex_breaking ex_world),
           fst (snd (wrappedFetch ex_env_offline ex_breaking ex_world)),
           snd (snd (wrappedFetch ex_env_offline ex_breaking ex_world)))"
    by simp
  show "FetchDidFail 1 (Thrown 7) None (ex_request\<lparr>req_id := 12\<rparr>) (ex_request\<lparr>req_id := 13\<rparr>)
          (Throws 43) \<in> set (fst (snd (wrappedFetch ex_env_offline ex_breaking ex_world)))"
    by (simp add: ex_breaking_run)
qed



text \<open>
  C10. After a successful \<^verbatim>\<open>fetch\<close>, a \<^verbatim>\<open>fetchDidSucceed\<close> hook that returns nothing makes
  the current response \<^verbatim>\<open>undefined\<close>: that is what the next hook receives, and what is
  returned to the caller when the hook is the last one.
\<close>

theorem fetchDidSucceed_void_is_assigned:
  assumes "wrappedFetch env options w0 = (w', calls, res)"
      and "Fetch r fo (Returns fetchResponse) \<in> set calls"
      and "i < length (filter is_FetchDidSucceed calls)"
      and "returned_response (filter is_FetchDidSucceed calls ! i) = Returns None"
  shows "if Suc i < length (filter is_FetchDidSucceed calls)
         then response_arg (filter is_FetchDidSucceed calls ! Suc i) = None
         else res = Inr None"
proof -
  let ?fs = "filter is_FetchDidSucceed calls"
  from fetchDidSucceed_calls_of_run[OF assms(1,2)] obtain pfr w1 w2 sres where
    loop: "fetchDidSucceed_loop (given_plugins options) (event options) pfr (Some fetchResponse) w1
             = (w2, ?fs, sres)"
    and res: "\<forall>v. sres = Inr v \<longrightarrow> res = Inr v"
    by blast
  note steps = fetchDidSucceed_loop_steps[OF loop]
  show ?thesis
  proof (cases "Suc i < length ?fs")
    case True
    with steps(1) assms(4) show ?thesis by simp
  next
    case False
    with assms(3) have "i = length ?fs - 1" "?fs \<noteq> []" by auto
    with assms(4) have "returned_response (last ?fs) = Returns None"
      by (simp add: last_conv_nth)
    with steps(3) \<open>?fs \<noteq> []\<close> res have "res = Inr None" by blast
    with False show ?thesis by simp
  qed
qed

theorem fetchDidSucceed_void_is_assigned_witness:
  "response_arg (filter is_FetchDidSucceed (fst (snd (wrappedFetch ex_env ex_silenced ex_world))) ! 1)
     = None \<and>
   snd (snd (wrappedFetch ex_env ex_silenced ex_world)) = Inr None"
proof -
  let ?calls = "fst (snd (wrappedFetch ex_env ex_silenced ex_world))"
  let ?fs = "filter is_FetchDidSucceed ?calls"
  have fs: "?fs =
      [FetchDidSucceed 1 None (ex_request\<lparr>req_id := 10\<rparr>) (Some ex_response) (Returns None),
       FetchDidSucceed 2 None (ex_request\<lparr>req_id := 10\<rparr>) None (Returns None)]"
    by (simp add: ex_silenced_run)
  have run: "wrappedFetch ex_env ex_silenced ex_world =
      (fst (wrappedFetch ex_env ex_silenced ex_world), ?calls,
       snd (snd (wrappedFetch ex_env ex_silenced ex_world)))"
    by simp
  have fetched: "Fetch ex_request (Some [(''credentials'', ''include'')]) (Returns ex_response)
      \<in> set ?calls"
    by (simp add: ex_silenced_run)
  have first: "0 < length ?fs" "returned_response (?fs ! 0) = Returns None"
    by (simp_all add: fs)
  have second: "1 < length ?fs" "returned_response (?fs ! 1) = Returns None"
    by (simp_all add: fs)
  from fetchDidSucceed_void_is_assigned[OF run fetched first]
  have "response_arg (?fs ! 1) = None" by (simp add: fs)
  moreover from fetchDidSucceed_void_is_assigned[OF run fetched second]
  have "snd (snd (wrappedFetch ex_env ex_silenced ex_world)) = Inr None" by (simp add: fs)
  ultimately show ?thesis by simp
qed

end
